theory Spec2Isabelle
  imports Main "HOL-Library.Word"
begin

section \<open>The key event controller of gtk/gtkeventcontrollerkey.c\<close>

text \<open>
  A shallow embedding of \<^verbatim>\<open>gtk_event_controller_key_handle_event\<close>,
  \<^verbatim>\<open>gtk_event_controller_key_set_im_context\<close>,
  \<^verbatim>\<open>gtk_event_controller_key_forward\<close> and
  \<^verbatim>\<open>gtk_event_controller_key_get_group\<close>.

  The controller is a record that is passed in and returned updated. Everything the file
  calls but does not define (the GDK event accessors, the input method context, the
  handlers connected to the signals, the widget functions) is a parameter: the accessors
  are the fields of the event, the rest are the fields of an \<open>environment\<close>. A signal
  emission is recorded in the list of signals the call returns, and the value an emission
  writes through \<^verbatim>\<open>&handled\<close> is what the environment answers.
  Handlers are taken not to re-enter the controller while they run.
\<close>

subsection \<open>C types\<close>

type_synonym guint = "32 word"
type_synonym guint16 = "16 word"
type_synonym GdkModifierType = "32 word"

text \<open>A pointer, on a platform with 64-bit addresses; \<open>NULL\<close> is the address 0.\<close>

type_synonym gpointer = "64 word"

definition NULL :: gpointer where
  "NULL = 0"

text \<open>\<^verbatim>\<open>#define GUINT_TO_POINTER(u) ((gpointer) (gulong) (u))\<close>: zero extension.\<close>

definition GUINT_TO_POINTER :: "guint \<Rightarrow> gpointer" where
  "GUINT_TO_POINTER u = ucast u"

subsection \<open>Events\<close>

text \<open>
  The event types the handler tells apart; every other member of the enumeration
  is \<open>GDK_EVENT_OTHER\<close>.
\<close>

datatype GdkEventType = GDK_FOCUS_CHANGE | GDK_KEY_PRESS | GDK_KEY_RELEASE | GDK_EVENT_OTHER

text \<open>
  An event is what its accessors answer. An accessor of the form
  \<^verbatim>\<open>gboolean gdk_event_get_x (event, &x)\<close> whose result the handler tests is an
  option: \<open>None\<close> when it returns \<^verbatim>\<open>FALSE\<close>, \<open>Some x\<close> when it returns
  \<^verbatim>\<open>TRUE\<close> and stores \<open>x\<close>. The handler ignores the result of the keycode, keyval
  and key group accessors and uses what they store, so these are plain fields.
\<close>

record GdkEvent =
  gdk_event_get_event_type :: GdkEventType
  gdk_event_get_focus_in :: "bool option"
  gdk_event_get_state :: "GdkModifierType option"
  gdk_event_get_key_is_modifier :: "bool option"
  gdk_event_get_keycode :: guint16
  gdk_event_get_keyval :: guint
  gdk_event_get_key_group :: guint

subsection \<open>The hash table of pressed keys\<close>

text \<open>
  \<^verbatim>\<open>g_hash_table_new (NULL, NULL)\<close> hashes and compares the key pointers themselves,
  so the table is a finite map from pointers to pointers. \<^verbatim>\<open>g_hash_table_add\<close>
  stores the key as its own value, \<^verbatim>\<open>g_hash_table_lookup\<close> returns the stored
  value, or \<open>NULL\<close> when the key is absent.
\<close>

type_synonym GHashTable = "gpointer \<rightharpoonup> gpointer"

definition g_hash_table_new :: GHashTable where
  "g_hash_table_new = Map.empty"

definition g_hash_table_add :: "GHashTable \<Rightarrow> gpointer \<Rightarrow> GHashTable" where
  "g_hash_table_add t k = t(k \<mapsto> k)"

definition g_hash_table_lookup :: "GHashTable \<Rightarrow> gpointer \<Rightarrow> gpointer" where
  "g_hash_table_lookup t k = (case t k of None \<Rightarrow> NULL | Some v \<Rightarrow> v)"

definition g_hash_table_remove :: "GHashTable \<Rightarrow> gpointer \<Rightarrow> GHashTable" where
  "g_hash_table_remove t k = t(k := None)"

subsection \<open>The controller\<close>

text \<open>Objects of the toolkit are known by their identity.\<close>

type_synonym GtkIMContext = nat
type_synonym GtkWidget = nat

record GtkEventControllerKey =
  im_context :: "GtkIMContext option"
  pressed_keys :: GHashTable
  current_event :: "GdkEvent option"

datatype signal =
    KEY_PRESSED guint guint16 GdkModifierType
  | KEY_RELEASED guint guint16 GdkModifierType
  | MODIFIERS GdkModifierType
  | IM_UPDATE
  | FOCUS_IN
  | FOCUS_OUT

datatype GtkPropagationPhase = GTK_PHASE_CAPTURE | GTK_PHASE_TARGET | GTK_PHASE_BUBBLE

text \<open>
  The collaborators. \<open>emit_modifiers\<close> and \<open>emit_key_pressed\<close> are the values that
  the emissions of \<^verbatim>\<open>signals[MODIFIERS]\<close> and \<^verbatim>\<open>signals[KEY_PRESSED]\<close> store
  in \<^verbatim>\<open>handled\<close>.
\<close>

record environment =
  gtk_im_context_filter_keypress :: "GtkIMContext \<Rightarrow> GdkEvent \<Rightarrow> bool"
  emit_modifiers :: "GdkModifierType \<Rightarrow> bool"
  emit_key_pressed :: "guint \<Rightarrow> guint16 \<Rightarrow> GdkModifierType \<Rightarrow> bool"
  gtk_widget_get_realized :: "GtkWidget \<Rightarrow> bool"
  gtk_widget_run_controllers :: "GtkWidget \<Rightarrow> GdkEvent \<Rightarrow> GtkPropagationPhase \<Rightarrow> bool"

text \<open>\<^verbatim>\<open>gtk_event_controller_key_init\<close>; the object is allocated zeroed.\<close>

definition gtk_event_controller_key_init :: GtkEventControllerKey where
  "gtk_event_controller_key_init =
     \<lparr>im_context = None, pressed_keys = g_hash_table_new, current_event = None\<rparr>"

text \<open>
  \<^verbatim>\<open>gtk_event_controller_key_handle_event\<close>. The result is the returned
  \<^verbatim>\<open>gboolean\<close>, the controller after the call and the signals emitted, in order.
  \<open>emit_key_signal\<close> is the tail of the function, from the read of the keycode to the
  final \<^verbatim>\<open>return handled\<close>; \<open>emitted\<close> is what the call has emitted before.
\<close>

definition emit_key_signal ::
  "environment \<Rightarrow> GtkEventControllerKey \<Rightarrow> GdkEvent \<Rightarrow> GdkModifierType \<Rightarrow> signal list
     \<Rightarrow> bool \<times> GtkEventControllerKey \<times> signal list"
where
  "emit_key_signal env key event state emitted =
    (let event_type = gdk_event_get_event_type event;
         keycode = gdk_event_get_keycode event;
         keyval = gdk_event_get_keyval event
     in
     if event_type = GDK_KEY_PRESS then
       let handled = emit_key_pressed env keyval keycode state;
           key' = (if handled
                   then key\<lparr>pressed_keys :=
                          g_hash_table_add (pressed_keys key) (GUINT_TO_POINTER keyval)\<rparr>
                   else key)
       in (handled, key'\<lparr>current_event := None\<rparr>,
           emitted @ [KEY_PRESSED keyval keycode state])
     else if event_type = GDK_KEY_RELEASE then
       let handled = (g_hash_table_lookup (pressed_keys key) (GUINT_TO_POINTER keyval) \<noteq> NULL);
           key' = key\<lparr>pressed_keys :=
                    g_hash_table_remove (pressed_keys key) (GUINT_TO_POINTER keyval)\<rparr>
       in (handled, key'\<lparr>current_event := None\<rparr>,
           emitted @ [KEY_RELEASED keyval keycode state])
     else
       (False, key\<lparr>current_event := None\<rparr>, emitted))"

definition gtk_event_controller_key_handle_event ::
  "environment \<Rightarrow> GtkEventControllerKey \<Rightarrow> GdkEvent
     \<Rightarrow> bool \<times> GtkEventControllerKey \<times> signal list"
where
  "gtk_event_controller_key_handle_event env key event =
    (let event_type = gdk_event_get_event_type event in
     if event_type = GDK_FOCUS_CHANGE then
       (if gdk_event_get_focus_in event = Some True
        then (False, key, [FOCUS_IN])
        else (False, key, [FOCUS_OUT]))
     else if event_type \<noteq> GDK_KEY_PRESS \<and> event_type \<noteq> GDK_KEY_RELEASE then
       (False, key, [])
     else if (case im_context key of
                None \<Rightarrow> False
              | Some im \<Rightarrow> gtk_im_context_filter_keypress env im event) then
       (True, key, [IM_UPDATE])
     else
       (case gdk_event_get_state event of
          None \<Rightarrow> (False, key, [])
        | Some state \<Rightarrow>
       (case gdk_event_get_key_is_modifier event of
          None \<Rightarrow> (False, key, [])
        | Some is_modifier \<Rightarrow>
          let key1 = key\<lparr>current_event := Some event\<rparr> in
          if is_modifier then
            let (handled, emitted) =
                  (if event_type = GDK_KEY_PRESS
                   then (emit_modifiers env state, [MODIFIERS state])
                   else (True, []))
            in
            if handled then (True, key1\<lparr>current_event := None\<rparr>, emitted)
            else emit_key_signal env key1 event state emitted
          else emit_key_signal env key1 event state [])))"

subsection \<open>The other entry points\<close>

text \<open>
  What the entry points below do to their collaborators, in order. A failed
  \<^verbatim>\<open>g_return_val_if_fail (expr, val)\<close> logs the text of \<open>expr\<close> and returns \<open>val\<close>.
\<close>

datatype call =
    G_RETURN_IF_FAIL_WARNING string
  | GTK_IM_CONTEXT_RESET GtkIMContext
  | GTK_WIDGET_REALIZE GtkWidget
  | GTK_WIDGET_RUN_CONTROLLERS GtkWidget GdkEvent GtkPropagationPhase
  | GDK_EVENT_GET_KEY_GROUP GdkEvent

text \<open>
  \<^verbatim>\<open>gtk_event_controller_key_set_im_context\<close>; \<open>None\<close> is the \<open>NULL\<close> context.
\<close>

definition gtk_event_controller_key_set_im_context ::
  "GtkEventControllerKey \<Rightarrow> GtkIMContext option \<Rightarrow> GtkEventControllerKey \<times> call list"
where
  "gtk_event_controller_key_set_im_context controller im =
     (controller\<lparr>im_context := im\<rparr>,
      (case im_context controller of None \<Rightarrow> [] | Some old \<Rightarrow> [GTK_IM_CONTEXT_RESET old]))"

definition gtk_event_controller_key_get_im_context ::
  "GtkEventControllerKey \<Rightarrow> GtkIMContext option"
where
  "gtk_event_controller_key_get_im_context controller = im_context controller"

text \<open>
  \<^verbatim>\<open>gtk_event_controller_key_forward\<close>. The widget argument is \<open>None\<close> when the
  pointer passed is not a widget (\<^verbatim>\<open>GTK_IS_WIDGET\<close> fails). The controller argument
  is a key controller by its type, so the check \<^verbatim>\<open>GTK_IS_EVENT_CONTROLLER_KEY\<close>
  holds, here and in the other entry points.
\<close>

definition gtk_event_controller_key_forward ::
  "environment \<Rightarrow> GtkEventControllerKey \<Rightarrow> GtkWidget option \<Rightarrow> bool \<times> call list"
where
  "gtk_event_controller_key_forward env controller widget =
    (case widget of
       None \<Rightarrow> (False, [G_RETURN_IF_FAIL_WARNING ''GTK_IS_WIDGET (widget)''])
     | Some w \<Rightarrow>
    (case current_event controller of
       None \<Rightarrow> (False, [G_RETURN_IF_FAIL_WARNING ''controller->current_event != NULL''])
     | Some ev \<Rightarrow>
       let realize = (if \<not> gtk_widget_get_realized env w then [GTK_WIDGET_REALIZE w] else []) in
       if gtk_widget_run_controllers env w ev GTK_PHASE_CAPTURE then
         (True, realize @ [GTK_WIDGET_RUN_CONTROLLERS w ev GTK_PHASE_CAPTURE])
       else if gtk_widget_run_controllers env w ev GTK_PHASE_TARGET then
         (True, realize @ [GTK_WIDGET_RUN_CONTROLLERS w ev GTK_PHASE_CAPTURE,
                           GTK_WIDGET_RUN_CONTROLLERS w ev GTK_PHASE_TARGET])
       else if gtk_widget_run_controllers env w ev GTK_PHASE_BUBBLE then
         (True, realize @ [GTK_WIDGET_RUN_CONTROLLERS w ev GTK_PHASE_CAPTURE,
                           GTK_WIDGET_RUN_CONTROLLERS w ev GTK_PHASE_TARGET,
                           GTK_WIDGET_RUN_CONTROLLERS w ev GTK_PHASE_BUBBLE])
       else
         (False, realize @ [GTK_WIDGET_RUN_CONTROLLERS w ev GTK_PHASE_CAPTURE,
                            GTK_WIDGET_RUN_CONTROLLERS w ev GTK_PHASE_TARGET,
                            GTK_WIDGET_RUN_CONTROLLERS w ev GTK_PHASE_BUBBLE])))"

text \<open>\<^verbatim>\<open>gtk_event_controller_key_get_group\<close>; \<^verbatim>\<open>FALSE\<close> is 0.\<close>

definition gtk_event_controller_key_get_group ::
  "GtkEventControllerKey \<Rightarrow> guint \<times> call list"
where
  "gtk_event_controller_key_get_group controller =
    (case current_event controller of
       None \<Rightarrow> (0, [G_RETURN_IF_FAIL_WARNING ''controller->current_event != NULL''])
     | Some ev \<Rightarrow> (gdk_event_get_key_group ev, [GDK_EVENT_GET_KEY_GROUP ev]))"

subsection \<open>Sequences of calls\<close>

text \<open>
  The calls that can change a controller, and what a sequence of them leaves:
  \<open>run\<close> is the controller after the sequence, \<open>outcomes\<close> lists for every call what
  it returned and the signals it emitted. Setting the input method context returns
  nothing and emits no signal; its entry is \<open>(False, [])\<close>.
\<close>

datatype operation =
    HANDLE_EVENT environment GdkEvent
  | SET_IM_CONTEXT "GtkIMContext option"

type_synonym outcome = "bool \<times> signal list"

fun step :: "GtkEventControllerKey \<Rightarrow> operation \<Rightarrow> GtkEventControllerKey \<times> outcome" where
  "step c (HANDLE_EVENT env ev) =
     (case gtk_event_controller_key_handle_event env c ev of (h, c', sigs) \<Rightarrow> (c', (h, sigs)))"
| "step c (SET_IM_CONTEXT im) = (fst (gtk_event_controller_key_set_im_context c im), (False, []))"

fun run :: "GtkEventControllerKey \<Rightarrow> operation list \<Rightarrow> GtkEventControllerKey" where
  "run c [] = c"
| "run c (x # xs) = run (fst (step c x)) xs"

fun outcomes :: "GtkEventControllerKey \<Rightarrow> operation list \<Rightarrow> outcome list" where
  "outcomes c [] = []"
| "outcomes c (x # xs) = snd (step c x) # outcomes (fst (step c x)) xs"

text \<open>A call consumed the press of \<open>kv\<close>: it emitted key-pressed for it and returned true.\<close>

fun is_key_pressed :: "guint \<Rightarrow> signal \<Rightarrow> bool" where
  "is_key_pressed kv (KEY_PRESSED kv' kc st) = (kv' = kv)"
| "is_key_pressed kv s = False"

fun is_key_released :: "guint \<Rightarrow> signal \<Rightarrow> bool" where
  "is_key_released kv (KEY_RELEASED kv' kc st) = (kv' = kv)"
| "is_key_released kv s = False"

definition press_consumed :: "guint \<Rightarrow> outcome \<Rightarrow> bool" where
  "press_consumed kv out = (fst out \<and> list_ex (is_key_pressed kv) (snd out))"

text \<open>A call delivered the release of \<open>kv\<close>: it emitted key-released for it.\<close>

definition release_emitted :: "guint \<Rightarrow> outcome \<Rightarrow> bool" where
  "release_emitted kv out = list_ex (is_key_released kv) (snd out)"

text \<open>An input method context is attached and it filters the event.\<close>

definition im_filters :: "environment \<Rightarrow> GtkEventControllerKey \<Rightarrow> GdkEvent \<Rightarrow> bool" where
  "im_filters env key event =
     (case im_context key of
        None \<Rightarrow> False
      | Some im \<Rightarrow> gtk_im_context_filter_keypress env im event)"

text \<open>
  What a call leaves of the membership of \<open>kv\<close> in the pressed keys, given whether
  it was a member before.
\<close>

definition held_after :: "guint \<Rightarrow> outcome \<Rightarrow> bool \<Rightarrow> bool" where
  "held_after kv out before = (press_consumed kv out \<or> (before \<and> \<not> release_emitted kv out))"

text \<open>
  The prefix of a list up to and including its first element that satisfies \<open>P\<close>:
  the phases run by a dispatch that stops at the first phase that consumes.
\<close>

fun upto_first :: "('a \<Rightarrow> bool) \<Rightarrow> 'a list \<Rightarrow> 'a list" where
  "upto_first P [] = []"
| "upto_first P (x # xs) = (if P x then [x] else x # upto_first P xs)"

definition phases :: "GtkPropagationPhase list" where
  "phases = [GTK_PHASE_CAPTURE, GTK_PHASE_TARGET, GTK_PHASE_BUBBLE]"

subsection \<open>Concrete events and collaborators\<close>

definition key_event :: "GdkEventType \<Rightarrow> guint \<Rightarrow> guint16 \<Rightarrow> bool \<Rightarrow> GdkEvent" where
  "key_event t kv kc is_mod =
     \<lparr>gdk_event_get_event_type = t, gdk_event_get_focus_in = None,
      gdk_event_get_state = Some 0, gdk_event_get_key_is_modifier = Some is_mod,
      gdk_event_get_keycode = kc, gdk_event_get_keyval = kv, gdk_event_get_key_group = 0\<rparr>"

text \<open>The key A, the left shift key, and a key without a symbol (key value 0).\<close>

definition press_A :: GdkEvent where "press_A = key_event GDK_KEY_PRESS 65 38 False"
definition release_A :: GdkEvent where "release_A = key_event GDK_KEY_RELEASE 65 38 False"
definition press_Shift :: GdkEvent where "press_Shift = key_event GDK_KEY_PRESS 0xffe1 50 True"
definition release_Shift :: GdkEvent where "release_Shift = key_event GDK_KEY_RELEASE 0xffe1 50 True"
definition press_0 :: GdkEvent where "press_0 = key_event GDK_KEY_PRESS 0 93 False"
definition release_0 :: GdkEvent where "release_0 = key_event GDK_KEY_RELEASE 0 93 False"

text \<open>A key press whose state cannot be read, and a focus event.\<close>

definition press_unreadable :: GdkEvent where
  "press_unreadable = (key_event GDK_KEY_PRESS 65 38 False)\<lparr>gdk_event_get_state := None\<rparr>"

definition focus_gained :: GdkEvent where
  "focus_gained = (key_event GDK_FOCUS_CHANGE 0 0 False)\<lparr>gdk_event_get_focus_in := Some True\<rparr>"

text \<open>
  Handlers that consume every key press and no modifier change, beside an input method
  that filters nothing (\<open>env_plain\<close>) or everything (\<open>env_filtering\<close>). Only the target
  phase of a forwarded event consumes it, and no widget is realized yet.
\<close>

definition env_plain :: environment where
  "env_plain =
     \<lparr>gtk_im_context_filter_keypress = (\<lambda>im ev. False),
      emit_modifiers = (\<lambda>st. False),
      emit_key_pressed = (\<lambda>kv kc st. True),
      gtk_widget_get_realized = (\<lambda>w. False),
      gtk_widget_run_controllers = (\<lambda>w ev p. p = GTK_PHASE_TARGET)\<rparr>"

definition env_filtering :: environment where
  "env_filtering = env_plain\<lparr>gtk_im_context_filter_keypress := (\<lambda>im ev. True)\<rparr>"

text \<open>A controller with an input method context attached.\<close>

definition controller_with_im :: GtkEventControllerKey where
  "controller_with_im = fst (gtk_event_controller_key_set_im_context gtk_event_controller_key_init (Some 1))"

text \<open>A controller in the middle of handling the press of A.\<close>

definition controller_handling_A :: GtkEventControllerKey where
  "controller_handling_A = gtk_event_controller_key_init\<lparr>current_event := Some press_A\<rparr>"


section \<open>Properties\<close>

lemmas event_defs =
  key_event_def press_A_def release_A_def press_Shift_def release_Shift_def
  press_0_def release_0_def press_unreadable_def focus_gained_def

lemmas environment_defs = env_plain_def env_filtering_def

lemmas table_defs =
  g_hash_table_new_def g_hash_table_add_def g_hash_table_lookup_def g_hash_table_remove_def
  NULL_def GUINT_TO_POINTER_def

lemmas controller_defs =
  gtk_event_controller_key_handle_event_def emit_key_signal_def
  gtk_event_controller_key_init_def gtk_event_controller_key_set_im_context_def
  controller_with_im_def controller_handling_A_def im_filters_def

subsection \<open>Pointers made from key values\<close>

lemma POINTER_TO_GUINT: "ucast (GUINT_TO_POINTER u) = u"
  unfolding GUINT_TO_POINTER_def by (rule ucast_up_ucast_id) (simp add: is_up)

lemma GUINT_TO_POINTER_inj: "GUINT_TO_POINTER a = GUINT_TO_POINTER b \<longleftrightarrow> a = b"
  by (metis POINTER_TO_GUINT)

lemma GUINT_TO_POINTER_NULL: "GUINT_TO_POINTER u = NULL \<longleftrightarrow> u = 0"
  unfolding NULL_def by (metis POINTER_TO_GUINT GUINT_TO_POINTER_def ucast_0)

subsection \<open>One call and the pressed keys\<close>

lemma emit_key_signal_pressed:
  assumes "emit_key_signal env c ev st emitted = (h, c', sigs)"
    and "emitted = [] \<or> emitted = [MODIFIERS st']"
  shows "GUINT_TO_POINTER kv \<in> dom (pressed_keys c') \<longleftrightarrow>
           held_after kv (h, sigs) (GUINT_TO_POINTER kv \<in> dom (pressed_keys c))"
  using assms
  by (auto simp add: emit_key_signal_def Let_def held_after_def press_consumed_def
        release_emitted_def g_hash_table_add_def g_hash_table_remove_def GUINT_TO_POINTER_inj
        split: if_splits)

lemma handle_event_pressed:
  assumes "gtk_event_controller_key_handle_event env c ev = (h, c', sigs)"
  shows "GUINT_TO_POINTER kv \<in> dom (pressed_keys c') \<longleftrightarrow>
           held_after kv (h, sigs) (GUINT_TO_POINTER kv \<in> dom (pressed_keys c))"
proof -
  have plain: "held_after kv (b, []) x = x" "held_after kv (b, [FOCUS_IN]) x = x"
    "held_after kv (b, [FOCUS_OUT]) x = x" "held_after kv (b, [IM_UPDATE]) x = x"
    "held_after kv (b, [MODIFIERS st]) x = x" for b x st
    by (simp_all add: held_after_def press_consumed_def release_emitted_def)
  show ?thesis
    using assms
    unfolding gtk_event_controller_key_handle_event_def Let_def
    by (auto split: if_splits option.splits prod.splits simp: plain
        dest: emit_key_signal_pressed[where kv=kv])
qed

lemma handle_event_dom:
  assumes "gtk_event_controller_key_handle_event env c ev = (h, c', sigs)"
  shows "dom (pressed_keys c')
           \<subseteq> insert (GUINT_TO_POINTER (gdk_event_get_keyval ev)) (dom (pressed_keys c))"
  using assms
  unfolding gtk_event_controller_key_handle_event_def Let_def emit_key_signal_def
  by (auto split: if_splits option.splits prod.splits
        simp: g_hash_table_add_def g_hash_table_remove_def)

lemma handle_event_current_event:
  "current_event c = None \<Longrightarrow>
   current_event (fst (snd (gtk_event_controller_key_handle_event env c ev))) = None"
  by (auto simp add: gtk_event_controller_key_handle_event_def emit_key_signal_def Let_def
        split: option.splits)

subsection \<open>Sequences of calls and the pressed keys\<close>

lemma step_range:
  assumes "dom (pressed_keys c) \<subseteq> range GUINT_TO_POINTER"
  shows "dom (pressed_keys (fst (step c x))) \<subseteq> range GUINT_TO_POINTER"
proof (cases x)
  case (HANDLE_EVENT env ev)
  obtain h c' sigs where r: "gtk_event_controller_key_handle_event env c ev = (h, c', sigs)"
    by (cases "gtk_event_controller_key_handle_event env c ev") auto
  from handle_event_dom[OF r] assms show ?thesis
    using HANDLE_EVENT r by auto
next
  case (SET_IM_CONTEXT im)
  with assms show ?thesis
    by (simp add: gtk_event_controller_key_set_im_context_def)
qed

lemma run_range:
  "dom (pressed_keys c) \<subseteq> range GUINT_TO_POINTER \<Longrightarrow>
   dom (pressed_keys (run c ops)) \<subseteq> range GUINT_TO_POINTER"
  by (induction ops arbitrary: c) (simp_all add: step_range del: step.simps)

lemma step_pressed:
  "GUINT_TO_POINTER kv \<in> dom (pressed_keys (fst (step c x))) \<longleftrightarrow>
     held_after kv (snd (step c x)) (GUINT_TO_POINTER kv \<in> dom (pressed_keys c))"
proof (cases x)
  case (HANDLE_EVENT env ev)
  obtain h c' sigs where r: "gtk_event_controller_key_handle_event env c ev = (h, c', sigs)"
    by (cases "gtk_event_controller_key_handle_event env c ev") auto
  from handle_event_pressed[OF r, of kv] show ?thesis
    using HANDLE_EVENT r by simp
next
  case (SET_IM_CONTEXT im)
  then show ?thesis
    by (simp add: gtk_event_controller_key_set_im_context_def held_after_def
          press_consumed_def release_emitted_def)
qed

lemma step_current_event:
  "current_event c = None \<Longrightarrow> current_event (fst (step c x)) = None"
proof (cases x)
  case (HANDLE_EVENT env ev)
  assume "current_event c = None"
  from handle_event_current_event[OF this, of env ev] show ?thesis
    using HANDLE_EVENT by (auto split: prod.splits)
next
  case (SET_IM_CONTEXT im)
  assume "current_event c = None"
  with SET_IM_CONTEXT show ?thesis
    by (simp add: gtk_event_controller_key_set_im_context_def)
qed

text \<open>Between calls no event is in flight.\<close>

lemma run_current_event:
  "current_event c = None \<Longrightarrow> current_event (run c ops) = None"
  by (induction ops arbitrary: c) (simp_all add: step_current_event del: step.simps)

lemma split_at_first_outcome:
  "(\<exists>pre out post. o1 # outs = pre @ out # post \<and> P out \<and> Q post) \<longleftrightarrow>
     (P o1 \<and> Q outs) \<or> (\<exists>pre out post. outs = pre @ out # post \<and> P out \<and> Q post)"
  by (auto simp: Cons_eq_append_conv)

lemma run_pressed:
  "GUINT_TO_POINTER kv \<in> dom (pressed_keys (run c ops)) \<longleftrightarrow>
     (GUINT_TO_POINTER kv \<in> dom (pressed_keys c) \<and>
        \<not> list_ex (release_emitted kv) (outcomes c ops)) \<or>
     (\<exists>pre out post. outcomes c ops = pre @ out # post \<and> press_consumed kv out \<and>
         \<not> list_ex (release_emitted kv) post)"
proof (induction ops arbitrary: c)
  case Nil
  then show ?case by simp
next
  case (Cons x xs)
  show ?case
    unfolding run.simps outcomes.simps Cons.IH split_at_first_outcome step_pressed held_after_def
    by auto
qed

subsection \<open>Focus events\<close>

text \<open>
  C6. For a focus-change event the handler returns \<^verbatim>\<open>FALSE\<close> whatever the direction,
  leaves the controller as it was and emits exactly one signal: focus-in when the read of
  the focus direction succeeds and reports focus gained, focus-out otherwise.
\<close>

theorem focus_change_not_consumed:
  assumes "gdk_event_get_event_type ev = GDK_FOCUS_CHANGE"
  shows "gtk_event_controller_key_handle_event env c ev =
           (False, c, [if gdk_event_get_focus_in ev = Some True then FOCUS_IN else FOCUS_OUT])"
  using assms by (simp add: gtk_event_controller_key_handle_event_def)

text \<open>A focus event that reports focus gained, on a new controller.\<close>

theorem focus_change_not_consumed_witness:
  "gdk_event_get_event_type focus_gained = GDK_FOCUS_CHANGE \<and>
   gtk_event_controller_key_handle_event env_plain gtk_event_controller_key_init focus_gained =
     (False, gtk_event_controller_key_init, [FOCUS_IN])"
proof -
  have t: "gdk_event_get_event_type focus_gained = GDK_FOCUS_CHANGE"
    by (simp add: event_defs)
  from focus_change_not_consumed[OF t, of env_plain gtk_event_controller_key_init] t
  show ?thesis by (simp add: event_defs)
qed

subsection \<open>Events filtered by the input method\<close>

text \<open>
  C5. For a key press or key release, when an input method context is attached and its
  filter reports that it consumed the event, the handler emits im-update and nothing
  else, returns \<^verbatim>\<open>TRUE\<close> and leaves the controller, and so the pressed keys,
  unchanged.
\<close>

theorem im_filtered_event:
  assumes "gdk_event_get_event_type ev = GDK_KEY_PRESS \<or>
           gdk_event_get_event_type ev = GDK_KEY_RELEASE"
    and "im_context c = Some im"
    and "gtk_im_context_filter_keypress env im ev"
  shows "gtk_event_controller_key_handle_event env c ev = (True, c, [IM_UPDATE])"
  using assms by (auto simp add: gtk_event_controller_key_handle_event_def)

text \<open>The press of A, filtered by the context 1.\<close>

theorem im_filtered_event_witness:
  "gdk_event_get_event_type press_A = GDK_KEY_PRESS \<and>
   im_context controller_with_im = Some 1 \<and>
   gtk_im_context_filter_keypress env_filtering 1 press_A \<and>
   gtk_event_controller_key_handle_event env_filtering controller_with_im press_A =
     (True, controller_with_im, [IM_UPDATE])"
proof -
  have t: "gdk_event_get_event_type press_A = GDK_KEY_PRESS \<or>
           gdk_event_get_event_type press_A = GDK_KEY_RELEASE"
    by (simp add: event_defs)
  have i: "im_context controller_with_im = Some 1"
    by (simp add: controller_defs)
  have f: "gtk_im_context_filter_keypress env_filtering 1 press_A"
    by (simp add: environment_defs)
  from im_filtered_event[OF t i f] i f show ?thesis
    by (simp add: event_defs)
qed

subsection \<open>Events that cannot be read\<close>

text \<open>
  C7, as amended. For a key press or key release whose modifier state or whose
  modifier-key classification cannot be read, the handler emits none of key-pressed,
  key-released and modifiers and leaves the controller, and so the pressed keys,
  unchanged; it returns \<^verbatim>\<open>FALSE\<close>, unless an attached input method context filters
  the event first, and then it emits im-update and returns \<^verbatim>\<open>TRUE\<close>.
\<close>

theorem unreadable_event:
  assumes "gdk_event_get_event_type ev = GDK_KEY_PRESS \<or>
           gdk_event_get_event_type ev = GDK_KEY_RELEASE"
    and "gdk_event_get_state ev = None \<or> gdk_event_get_key_is_modifier ev = None"
  shows "gtk_event_controller_key_handle_event env c ev =
           (if im_filters env c ev then (True, c, [IM_UPDATE]) else (False, c, []))"
  using assms
  by (auto simp add: gtk_event_controller_key_handle_event_def im_filters_def
        split: option.splits)

text \<open>A press whose state cannot be read, on a controller without input method.\<close>

theorem unreadable_event_witness:
  "gdk_event_get_event_type press_unreadable = GDK_KEY_PRESS \<and>
   gdk_event_get_state press_unreadable = None \<and>
   gtk_event_controller_key_handle_event env_plain gtk_event_controller_key_init press_unreadable =
     (False, gtk_event_controller_key_init, [])"
proof -
  have t: "gdk_event_get_event_type press_unreadable = GDK_KEY_PRESS \<or>
           gdk_event_get_event_type press_unreadable = GDK_KEY_RELEASE"
    by (simp add: event_defs)
  have u: "gdk_event_get_state press_unreadable = None \<or>
           gdk_event_get_key_is_modifier press_unreadable = None"
    by (simp add: event_defs)
  from unreadable_event[OF t u, of env_plain gtk_event_controller_key_init] show ?thesis
    by (simp add: event_defs controller_defs)
qed

text \<open>
  The same press with an input method context attached that filters it: the handler
  returns \<^verbatim>\<open>TRUE\<close>, where C7 as first stated has \<^verbatim>\<open>FALSE\<close>.
\<close>

theorem unreadable_event_filtered:
  "gdk_event_get_event_type press_unreadable = GDK_KEY_PRESS \<and>
   gdk_event_get_state press_unreadable = None \<and>
   fst (gtk_event_controller_key_handle_event env_filtering controller_with_im press_unreadable)"
  by (simp add: event_defs controller_defs environment_defs)

subsection \<open>Modifier keys\<close>

text \<open>
  C2, as amended. For a key event whose key is a pure modifier, whose state can be read
  and that no attached input method context filters: on release the handler emits
  nothing and returns \<^verbatim>\<open>TRUE\<close>; on press it emits modifiers with the state, and
  when that emission reports the event consumed it emits nothing more and returns
  \<^verbatim>\<open>TRUE\<close>. When the emission of modifiers reports the event not consumed, the handler
  goes on to emit key-pressed, returns what that emission reports and, when it reports
  consumed, adds the key value to the pressed keys.
\<close>

theorem modifier_key_event:
  assumes "gdk_event_get_event_type ev = GDK_KEY_PRESS \<or>
           gdk_event_get_event_type ev = GDK_KEY_RELEASE"
    and "\<not> im_filters env c ev"
    and "gdk_event_get_state ev = Some st"
    and "gdk_event_get_key_is_modifier ev = Some True"
  shows "gtk_event_controller_key_handle_event env c ev =
           (if gdk_event_get_event_type ev = GDK_KEY_RELEASE then
              (True, c\<lparr>current_event := None\<rparr>, [])
            else if emit_modifiers env st then
              (True, c\<lparr>current_event := None\<rparr>, [MODIFIERS st])
            else if emit_key_pressed env (gdk_event_get_keyval ev) (gdk_event_get_keycode ev) st then
              (True,
               c\<lparr>pressed_keys := g_hash_table_add (pressed_keys c)
                                    (GUINT_TO_POINTER (gdk_event_get_keyval ev)),
                 current_event := None\<rparr>,
               [MODIFIERS st, KEY_PRESSED (gdk_event_get_keyval ev) (gdk_event_get_keycode ev) st])
            else
              (False, c\<lparr>current_event := None\<rparr>,
               [MODIFIERS st, KEY_PRESSED (gdk_event_get_keyval ev) (gdk_event_get_keycode ev) st]))"
  using assms
  by (auto simp add: gtk_event_controller_key_handle_event_def emit_key_signal_def
        im_filters_def Let_def)

text \<open>The release of the shift key on a new controller.\<close>

theorem modifier_key_event_witness:
  "gdk_event_get_event_type release_Shift = GDK_KEY_RELEASE \<and>
   \<not> im_filters env_plain gtk_event_controller_key_init release_Shift \<and>
   gdk_event_get_state release_Shift = Some 0 \<and>
   gdk_event_get_key_is_modifier release_Shift = Some True \<and>
   gtk_event_controller_key_handle_event env_plain gtk_event_controller_key_init release_Shift =
     (True, gtk_event_controller_key_init, [])"
proof -
  have t: "gdk_event_get_event_type release_Shift = GDK_KEY_PRESS \<or>
           gdk_event_get_event_type release_Shift = GDK_KEY_RELEASE"
    by (simp add: event_defs)
  have f: "\<not> im_filters env_plain gtk_event_controller_key_init release_Shift"
    by (simp add: controller_defs)
  have s: "gdk_event_get_state release_Shift = Some 0"
    by (simp add: event_defs)
  have m: "gdk_event_get_key_is_modifier release_Shift = Some True"
    by (simp add: event_defs)
  from modifier_key_event[OF t f s m] f show ?thesis
    by (simp add: event_defs gtk_event_controller_key_init_def)
qed

text \<open>
  The press of the shift key when the emission of modifiers reports it not consumed:
  key-pressed is emitted, and the handler returns what key-pressed reports,
  \<^verbatim>\<open>TRUE\<close>, not what modifiers reported. C2 as first stated has no key-pressed here
  and the result \<^verbatim>\<open>FALSE\<close>.
\<close>

theorem modifier_press_falls_through:
  "gdk_event_get_key_is_modifier press_Shift = Some True \<and>
   \<not> im_filters env_plain gtk_event_controller_key_init press_Shift \<and>
   \<not> emit_modifiers env_plain 0 \<and>
   fst (gtk_event_controller_key_handle_event env_plain gtk_event_controller_key_init press_Shift) \<and>
   snd (snd (gtk_event_controller_key_handle_event env_plain gtk_event_controller_key_init
               press_Shift)) = [MODIFIERS 0, KEY_PRESSED 0xffe1 50 0]"
  by (simp add: event_defs controller_defs environment_defs)

subsection \<open>Releases\<close>

text \<open>
  C4, as amended. For a key release of a key value that is not among the pressed keys,
  the handler returns \<^verbatim>\<open>FALSE\<close>, except in two cases in which it returns
  \<^verbatim>\<open>TRUE\<close>: an attached input method context filters the release, or the release
  is that of a pure modifier key whose state can be read.
\<close>

theorem release_without_press:
  assumes "gdk_event_get_event_type ev = GDK_KEY_RELEASE"
    and "GUINT_TO_POINTER (gdk_event_get_keyval ev) \<notin> dom (pressed_keys c)"
  shows "fst (gtk_event_controller_key_handle_event env c ev) \<longleftrightarrow>
           im_filters env c ev \<or>
           (gdk_event_get_state ev \<noteq> None \<and> gdk_event_get_key_is_modifier ev = Some True)"
  using assms
  by (auto simp add: gtk_event_controller_key_handle_event_def emit_key_signal_def
        im_filters_def g_hash_table_lookup_def Let_def split: option.splits)

text \<open>The release of A on a new controller is not consumed.\<close>

theorem release_without_press_witness:
  "gdk_event_get_event_type release_A = GDK_KEY_RELEASE \<and>
   GUINT_TO_POINTER (gdk_event_get_keyval release_A)
     \<notin> dom (pressed_keys gtk_event_controller_key_init) \<and>
   \<not> fst (gtk_event_controller_key_handle_event env_plain gtk_event_controller_key_init release_A)"
proof -
  have t: "gdk_event_get_event_type release_A = GDK_KEY_RELEASE"
    by (simp add: event_defs)
  have a: "GUINT_TO_POINTER (gdk_event_get_keyval release_A)
             \<notin> dom (pressed_keys gtk_event_controller_key_init)"
    by (simp add: controller_defs table_defs)
  from release_without_press[OF t a, of env_plain] t a show ?thesis
    by (simp add: event_defs controller_defs)
qed

text \<open>
  The release of the shift key on a new controller, where no press was consumed
  before: the handler returns \<^verbatim>\<open>TRUE\<close>, where C4 as first stated has \<^verbatim>\<open>FALSE\<close>.
\<close>

theorem modifier_release_consumed:
  "gdk_event_get_event_type release_Shift = GDK_KEY_RELEASE \<and>
   GUINT_TO_POINTER (gdk_event_get_keyval release_Shift)
     \<notin> dom (pressed_keys gtk_event_controller_key_init) \<and>
   fst (gtk_event_controller_key_handle_event env_plain gtk_event_controller_key_init
          release_Shift)"
  by (simp add: event_defs controller_defs table_defs)

subsection \<open>A press, then the release of the same key\<close>

lemma press_consumed_stored:
  assumes "gdk_event_get_keyval press = k"
    and "gtk_event_controller_key_handle_event env c press = (h, c', sigs)"
    and "press_consumed k (h, sigs)"
  shows "pressed_keys c' (GUINT_TO_POINTER k) = Some (GUINT_TO_POINTER k)"
  using assms
  by (auto simp add: gtk_event_controller_key_handle_event_def emit_key_signal_def
        press_consumed_def g_hash_table_add_def Let_def
        split: if_splits option.splits)

text \<open>
  C3, as amended. Take a key press of key value \<open>k\<close> whose key-pressed signal is reported
  consumed, followed by a key release of the same key value that reaches the emission of
  key-released: no attached input method context filters it, its state and its
  classification can be read, and it is not the release of a pure modifier key. Then \<open>k\<close>
  is not among the pressed keys after the release, and for \<open>k\<close> other than 0 the release
  call returns \<^verbatim>\<open>TRUE\<close>.
\<close>

theorem press_then_release:
  assumes "gdk_event_get_event_type press = GDK_KEY_PRESS"
    and "gdk_event_get_keyval press = k"
    and "gtk_event_controller_key_handle_event env1 c press = (h1, c1, sigs1)"
    and "press_consumed k (h1, sigs1)"
    and "gdk_event_get_event_type release = GDK_KEY_RELEASE"
    and "gdk_event_get_keyval release = k"
    and "\<not> im_filters env2 c1 release"
    and "gdk_event_get_state release = Some st"
    and "gdk_event_get_key_is_modifier release = Some False"
    and "gtk_event_controller_key_handle_event env2 c1 release = (h2, c2, sigs2)"
  shows "GUINT_TO_POINTER k \<notin> dom (pressed_keys c2) \<and> (k \<noteq> 0 \<longrightarrow> h2) \<and>
         sigs2 = [KEY_RELEASED k (gdk_event_get_keycode release) st]"
proof -
  have stored: "pressed_keys c1 (GUINT_TO_POINTER k) = Some (GUINT_TO_POINTER k)"
    using assms(2,3,4) by (rule press_consumed_stored)
  have r: "emit_key_signal env2 (c1\<lparr>current_event := Some release\<rparr>) release st []
             = (h2, c2, sigs2)"
    using assms(5,7,8,9,10)
    by (simp add: gtk_event_controller_key_handle_event_def im_filters_def)
  from r assms(5,6) have
    h2: "h2 = (g_hash_table_lookup (pressed_keys c1) (GUINT_TO_POINTER k) \<noteq> NULL)" and
    c2: "pressed_keys c2 = g_hash_table_remove (pressed_keys c1) (GUINT_TO_POINTER k)" and
    s2: "sigs2 = [KEY_RELEASED k (gdk_event_get_keycode release) st]"
    by (auto simp add: emit_key_signal_def Let_def)
  from c2 have "GUINT_TO_POINTER k \<notin> dom (pressed_keys c2)"
    by (simp add: g_hash_table_remove_def)
  moreover from h2 stored have "k \<noteq> 0 \<longrightarrow> h2"
    by (simp add: g_hash_table_lookup_def GUINT_TO_POINTER_NULL)
  ultimately show ?thesis using s2 by simp
qed

text \<open>The press of A, consumed, and its release, on a new controller.\<close>

theorem press_then_release_witness:
  "gtk_event_controller_key_handle_event env_plain gtk_event_controller_key_init press_A =
     (True, gtk_event_controller_key_init\<lparr>pressed_keys := [65 \<mapsto> 65]\<rparr>, [KEY_PRESSED 65 38 0]) \<and>
   gtk_event_controller_key_handle_event env_plain
       (gtk_event_controller_key_init\<lparr>pressed_keys := [65 \<mapsto> 65]\<rparr>) release_A =
     (True, gtk_event_controller_key_init, [KEY_RELEASED 65 38 0]) \<and>
   GUINT_TO_POINTER 65 \<notin> dom (pressed_keys gtk_event_controller_key_init) \<and> (65::guint) \<noteq> 0"
proof -
  let ?c1 = "gtk_event_controller_key_init\<lparr>pressed_keys := [65 \<mapsto> 65]\<rparr>"
  have p: "gdk_event_get_event_type press_A = GDK_KEY_PRESS"
    "gdk_event_get_keyval press_A = 65"
    by (simp_all add: event_defs)
  have r1: "gtk_event_controller_key_handle_event env_plain gtk_event_controller_key_init press_A =
              (True, ?c1, [KEY_PRESSED 65 38 0])"
    by (simp add: event_defs controller_defs environment_defs table_defs)
  have pc: "press_consumed 65 (True, [KEY_PRESSED 65 38 0])"
    by (simp add: press_consumed_def)
  have r: "gdk_event_get_event_type release_A = GDK_KEY_RELEASE"
    "gdk_event_get_keyval release_A = 65"
    "\<not> im_filters env_plain ?c1 release_A"
    "gdk_event_get_state release_A = Some 0"
    "gdk_event_get_key_is_modifier release_A = Some False"
    by (simp_all add: event_defs controller_defs)
  have r2: "gtk_event_controller_key_handle_event env_plain ?c1 release_A =
              (True, gtk_event_controller_key_init, [KEY_RELEASED 65 38 0])"
    by (simp add: event_defs controller_defs environment_defs table_defs)
  from press_then_release[OF p r1 pc r r2] r1 r2 show ?thesis
    by simp
qed

text \<open>
  With an input method context attached that lets the press of A through and filters
  its release: the press is consumed, the release call returns \<^verbatim>\<open>TRUE\<close>, and A is
  still among the pressed keys after it. C3 as first stated has A absent.
\<close>

theorem filtered_release_keeps_key:
  "outcomes gtk_event_controller_key_init
     [SET_IM_CONTEXT (Some 1), HANDLE_EVENT env_plain press_A,
      HANDLE_EVENT env_filtering release_A] =
     [(False, []), (True, [KEY_PRESSED 65 38 0]), (True, [IM_UPDATE])] \<and>
   gdk_event_get_event_type release_A = GDK_KEY_RELEASE \<and>
   gdk_event_get_keyval release_A = 65 \<and>
   GUINT_TO_POINTER 65 \<in> dom (pressed_keys (run gtk_event_controller_key_init
     [SET_IM_CONTEXT (Some 1), HANDLE_EVENT env_plain press_A,
      HANDLE_EVENT env_filtering release_A]))"
  by (simp add: event_defs controller_defs environment_defs table_defs)

subsection \<open>The key value 0\<close>




subsection \<open>The invariant of the pressed keys\<close>

text \<open>
  C1, as amended. After every sequence of calls on a new controller, the pressed keys are
  exactly the pointers made from the key values \<open>kv\<close> for which some call emitted
  key-pressed for \<open>kv\<close> and returned \<^verbatim>\<open>TRUE\<close>, and no later call has emitted
  key-released for \<open>kv\<close>. A release that returns before that emission (it is filtered
  by the input method, it cannot be read, or it is the release of a pure modifier key)
  leaves the key among the pressed keys.
\<close>

theorem pressed_keys_invariant:
  "p \<in> dom (pressed_keys (run gtk_event_controller_key_init ops)) \<longleftrightarrow>
     (\<exists>kv pre out post.
        p = GUINT_TO_POINTER kv \<and>
        outcomes gtk_event_controller_key_init ops = pre @ out # post \<and>
        press_consumed kv out \<and>
        \<not> list_ex (release_emitted kv) post)"
proof -
  let ?held = "\<lambda>kv. \<exists>pre out post.
        outcomes gtk_event_controller_key_init ops = pre @ out # post \<and>
        press_consumed kv out \<and> \<not> list_ex (release_emitted kv) post"
  have e: "dom (pressed_keys gtk_event_controller_key_init) = {}"
    by (simp add: gtk_event_controller_key_init_def g_hash_table_new_def)
  have r: "dom (pressed_keys (run gtk_event_controller_key_init ops)) \<subseteq> range GUINT_TO_POINTER"
    by (rule run_range) (simp add: e)
  have k: "GUINT_TO_POINTER kv \<in> dom (pressed_keys (run gtk_event_controller_key_init ops))
             \<longleftrightarrow> ?held kv" for kv
    using run_pressed[of kv gtk_event_controller_key_init ops] e by simp
  show ?thesis
  proof
    assume m: "p \<in> dom (pressed_keys (run gtk_event_controller_key_init ops))"
    with r obtain kv where kv: "p = GUINT_TO_POINTER kv" by blast
    with m k have "?held kv" by simp
    with kv show "\<exists>kv pre out post. p = GUINT_TO_POINTER kv \<and>
        outcomes gtk_event_controller_key_init ops = pre @ out # post \<and>
        press_consumed kv out \<and> \<not> list_ex (release_emitted kv) post"
      by blast
  next
    assume "\<exists>kv pre out post. p = GUINT_TO_POINTER kv \<and>
        outcomes gtk_event_controller_key_init ops = pre @ out # post \<and>
        press_consumed kv out \<and> \<not> list_ex (release_emitted kv) post"
    then obtain kv where "p = GUINT_TO_POINTER kv" "?held kv" by blast
    with k show "p \<in> dom (pressed_keys (run gtk_event_controller_key_init ops))" by simp
  qed
qed

text \<open>After the consumed press of A and the release of the shift key, A is pressed.\<close>

theorem pressed_keys_invariant_witness:
  "GUINT_TO_POINTER 65 \<in> dom (pressed_keys (run gtk_event_controller_key_init
     [HANDLE_EVENT env_plain press_A, HANDLE_EVENT env_plain release_Shift]))"
proof -
  have "outcomes gtk_event_controller_key_init
          [HANDLE_EVENT env_plain press_A, HANDLE_EVENT env_plain release_Shift] =
        [] @ (True, [KEY_PRESSED 65 38 0]) # [(True, [])]"
    by (simp add: event_defs controller_defs environment_defs table_defs)
  moreover have "press_consumed 65 (True, [KEY_PRESSED 65 38 0])"
    by (simp add: press_consumed_def)
  moreover have "\<not> list_ex (release_emitted 65) [(True, [])]"
    by (simp add: release_emitted_def)
  ultimately show ?thesis
    using pressed_keys_invariant[of "GUINT_TO_POINTER 65"
        "[HANDLE_EVENT env_plain press_A, HANDLE_EVENT env_plain release_Shift]"]
    by blast
qed

text \<open>
  The press of the shift key, consumed by key-pressed, then its release: the release is
  processed and returns \<^verbatim>\<open>TRUE\<close>, and the shift key is still among the pressed keys.
  C1 as first stated has the set empty here.
\<close>

theorem modifier_release_keeps_key:
  "outcomes gtk_event_controller_key_init
     [HANDLE_EVENT env_plain press_Shift, HANDLE_EVENT env_plain release_Shift] =
     [(True, [MODIFIERS 0, KEY_PRESSED 0xffe1 50 0]), (True, [])] \<and>
   gdk_event_get_event_type release_Shift = GDK_KEY_RELEASE \<and>
   gdk_event_get_keyval release_Shift = 0xffe1 \<and>
   dom (pressed_keys (run gtk_event_controller_key_init
     [HANDLE_EVENT env_plain press_Shift, HANDLE_EVENT env_plain release_Shift])) =
     {GUINT_TO_POINTER 0xffe1}"
  by (simp add: event_defs controller_defs environment_defs table_defs)

subsection \<open>Forwarding and the key group\<close>

text \<open>
  C8. When no event is in flight (\<open>current_event\<close> is \<open>NULL\<close>), forwarding fails a
  precondition check and returns \<^verbatim>\<open>FALSE\<close>, and the query of the key group fails its
  check and returns 0; neither realizes a widget, runs a controller or reads an event:
  the failed check is all they do.
\<close>

theorem no_event_in_flight:
  assumes "current_event c = None"
  shows "gtk_event_controller_key_forward env c widget =
           (False, [G_RETURN_IF_FAIL_WARNING
                      (if widget = None then ''GTK_IS_WIDGET (widget)''
                       else ''controller->current_event != NULL'')]) \<and>
         gtk_event_controller_key_get_group c =
           (0, [G_RETURN_IF_FAIL_WARNING ''controller->current_event != NULL''])"
  using assms
  by (simp add: gtk_event_controller_key_forward_def gtk_event_controller_key_get_group_def
        split: option.splits)

text \<open>After the press and the release of A were handled, no event is in flight.\<close>

theorem no_event_in_flight_witness:
  "current_event (run gtk_event_controller_key_init
     [HANDLE_EVENT env_plain press_A, HANDLE_EVENT env_plain release_A]) = None \<and>
   gtk_event_controller_key_forward env_plain
     (run gtk_event_controller_key_init
        [HANDLE_EVENT env_plain press_A, HANDLE_EVENT env_plain release_A]) (Some 7) =
     (False, [G_RETURN_IF_FAIL_WARNING ''controller->current_event != NULL'']) \<and>
   gtk_event_controller_key_get_group
     (run gtk_event_controller_key_init
        [HANDLE_EVENT env_plain press_A, HANDLE_EVENT env_plain release_A]) =
     (0, [G_RETURN_IF_FAIL_WARNING ''controller->current_event != NULL''])"
proof -
  let ?c = "run gtk_event_controller_key_init
              [HANDLE_EVENT env_plain press_A, HANDLE_EVENT env_plain release_A]"
  have n: "current_event ?c = None"
    by (rule run_current_event) (simp add: gtk_event_controller_key_init_def)
  from no_event_in_flight[OF n, of env_plain "Some 7"] n show ?thesis
    by simp
qed

text \<open>
  C9. With an event in flight and a widget as target, forwarding first realizes the
  widget when it is not realized, then runs the controllers of the widget on the event in
  flight for the phases capture, target, bubble in this order, up to and including the
  first phase that reports the event consumed. It returns \<^verbatim>\<open>TRUE\<close> when some phase
  consumed the event and \<^verbatim>\<open>FALSE\<close> when none did.
\<close>

theorem forward_in_phase_order:
  assumes "current_event c = Some ev"
  shows "gtk_event_controller_key_forward env c (Some w) =
           (list_ex (gtk_widget_run_controllers env w ev) phases,
            (if gtk_widget_get_realized env w then [] else [GTK_WIDGET_REALIZE w]) @
            map (GTK_WIDGET_RUN_CONTROLLERS w ev)
              (upto_first (gtk_widget_run_controllers env w ev) phases))"
  using assms
  by (simp add: gtk_event_controller_key_forward_def phases_def)

text \<open>
  Forwarding the press of A to the widget 7, which is not realized and whose target
  phase consumes the event: the bubble phase is not run.
\<close>

theorem forward_in_phase_order_witness:
  "current_event controller_handling_A = Some press_A \<and>
   gtk_event_controller_key_forward env_plain controller_handling_A (Some 7) =
     (True, [GTK_WIDGET_REALIZE 7,
             GTK_WIDGET_RUN_CONTROLLERS 7 press_A GTK_PHASE_CAPTURE,
             GTK_WIDGET_RUN_CONTROLLERS 7 press_A GTK_PHASE_TARGET])"
proof -
  have e: "current_event controller_handling_A = Some press_A"
    by (simp add: controller_defs)
  from forward_in_phase_order[OF e, of env_plain 7] e show ?thesis
    by (simp add: environment_defs phases_def)
qed

end
